theory Spec2Isabelle
  imports Complex_Main
begin

section \<open>Values of the JavaScript program\<close>

text \<open>
  The service is \<^verbatim>\<open>server.js\<close>, in its later revision (lines 301 to 571, the routes
  that read \<^verbatim>\<open>criador\<close> and \<^verbatim>\<open>userId\<close>). Its handlers work on two arrays held by the
  module \<^verbatim>\<open>./data\<close>: \<^verbatim>\<open>db.atividades\<close> and \<^verbatim>\<open>db.participacoes\<close>.

  A JavaScript number is \<^verbatim>\<open>NaN\<close>, an infinity, or a finite value; the finite values are
  taken as rationals (every finite double is one, and \<^verbatim>\<open>+0\<close> and \<^verbatim>\<open>-0\<close>, which
  \<^verbatim>\<open>===\<close> identifies, are both \<open>Fin 0\<close>). The handlers never compute with numbers
  beyond \<^verbatim>\<open>length + 1\<close>; they compare them and test them for truth.
\<close>

datatype jsnumber = NaN | PInf | NInf | Fin rat

text \<open>
  A value parsed from a JSON body. A nested object keeps its members as a list; the
  request body itself and the stored activities, whose members the handlers read by
  name, are maps from member names to values (an absent member reads \<^verbatim>\<open>undefined\<close>,
  here \<open>None\<close>).
\<close>

datatype jval =
    JNull
  | JBool bool
  | JNumber jsnumber
  | JString string
  | JArray "jval list"
  | JObject "(string \<times> jval) list"

type_synonym objeto = "string \<rightharpoonup> jval"

text \<open>\<^verbatim>\<open>a === b\<close> on two numbers: \<^verbatim>\<open>NaN\<close> equals nothing, itself included.\<close>

definition num_seq :: "jsnumber \<Rightarrow> jsnumber \<Rightarrow> bool" where
  "num_seq a b = (a \<noteq> NaN \<and> a = b)"

text \<open>
  \<^verbatim>\<open>a === b\<close> on two values: equal types and equal primitive values. Arrays and objects
  are compared by reference, and wherever the handlers compare, one operand was parsed
  from an earlier request and the other from the current one (or is a fresh number), so
  two arrays or two objects are never the same reference.
\<close>

fun strict_eq :: "jval \<Rightarrow> jval \<Rightarrow> bool" where
  "strict_eq JNull JNull = True"
| "strict_eq (JBool a) (JBool b) = (a = b)"
| "strict_eq (JNumber a) (JNumber b) = num_seq a b"
| "strict_eq (JString a) (JString b) = (a = b)"
| "strict_eq _ _ = False"

text \<open>Truthiness, as \<^verbatim>\<open>if (x)\<close> and \<^verbatim>\<open>!x\<close> read a value.\<close>

fun truthy :: "jval \<Rightarrow> bool" where
  "truthy JNull = False"
| "truthy (JBool b) = b"
| "truthy (JNumber n) = (n \<noteq> NaN \<and> n \<noteq> Fin 0)"
| "truthy (JString s) = (s \<noteq> [])"
| "truthy (JArray _) = True"
| "truthy (JObject _) = True"


section \<open>Array methods\<close>

text \<open>
  \<^verbatim>\<open>Array.prototype.find\<close> is \<^const>\<open>List.find\<close>, \<^verbatim>\<open>some\<close> is \<^const>\<open>list_ex\<close>.
  \<^verbatim>\<open>findIndex\<close> returns the first index whose element satisfies the predicate, and
  \<^verbatim>\<open>-1\<close> (here \<open>None\<close>) when there is none.
\<close>

fun findIndex :: "('a \<Rightarrow> bool) \<Rightarrow> 'a list \<Rightarrow> nat option" where
  "findIndex P [] = None"
| "findIndex P (x # xs) = (if P x then Some 0 else map_option Suc (findIndex P xs))"

text \<open>
  \<^verbatim>\<open>xs.splice(index, 1)\<close>: removes the element at \<open>index\<close> from the array and returns
  the array of the removed elements. The result is (removed, remaining array).
\<close>

definition splice1 :: "nat \<Rightarrow> 'a list \<Rightarrow> 'a list \<times> 'a list" where
  "splice1 index xs = (take 1 (drop index xs), take index xs @ drop (Suc index) xs)"

text \<open>
  \<^verbatim>\<open>Array.prototype.filter\<close> with a callback that may throw (\<open>None\<close>): the elements are
  visited in order and the first throw ends the call.
\<close>

fun filter_js :: "('a \<Rightarrow> bool option) \<Rightarrow> 'a list \<Rightarrow> 'a list option" where
  "filter_js P [] = Some []"
| "filter_js P (x # xs) =
     (case P x of
        None \<Rightarrow> None
      | Some b \<Rightarrow>
          (case filter_js P xs of
             None \<Rightarrow> None
           | Some ys \<Rightarrow> Some (if b then x # ys else ys)))"

section \<open>The store, requests and responses\<close>

record participacao =
  userId :: jval
  atividadeId :: jsnumber

record db =
  atividades :: "objeto list"
  participacoes :: "participacao list"

text \<open>
  Modelled from the spec: the module \<^verbatim>\<open>./data\<close> that \<^verbatim>\<open>server.js\<close> requires is not
  among the source files; both collections start empty.
\<close>

definition db_vazio :: db where
  "db_vazio = \<lparr>atividades = [], participacoes = []\<rparr>"

text \<open>
  What a handler reads of a request: the path parameters \<^verbatim>\<open>:id\<close> and \<^verbatim>\<open>:userId\<close>
  (strings), the query parameters \<^verbatim>\<open>criador\<close> and \<^verbatim>\<open>userId\<close> (a string when given
  once, absent otherwise) and the body as \<^verbatim>\<open>express.json()\<close> left it (an object; the
  empty object when the request carried no JSON).
\<close>

record request =
  params_id :: string
  params_userId :: string
  query_criador :: "string option"
  query_userId :: "string option"
  body :: objeto

text \<open>
  The texts the handlers send, by name:
  \<^item> \<open>Atividade_nao_encontrada\<close>: \<^verbatim>\<open>Atividade n..o encontrada\<close>;
  \<^item> \<open>UserId_obrigatorio\<close>: \<^verbatim>\<open>userId .. obrigat..rio\<close>;
  \<^item> \<open>Usuario_ja_participa\<close>: \<^verbatim>\<open>Usu..rio j.. participa desta atividade\<close>;
  \<^item> \<open>Usuario_nao_participa\<close>: \<^verbatim>\<open>Usu..rio n..o participa desta atividade\<close>.
  (The dots stand for the accented letters of the source.)
\<close>

datatype mensagem =
    Atividade_nao_encontrada
  | UserId_obrigatorio
  | Usuario_ja_participa
  | Usuario_nao_participa

text \<open>
  The JSON bodies of the responses:
  \<^item> \<open>Erro m\<close> is \<^verbatim>\<open>{erro: m}\<close>;
  \<^item> \<open>Lista xs\<close> is an array of activities;
  \<^item> \<open>Objeto a\<close> is one object;
  \<^item> \<open>Removida xs\<close> is \<^verbatim>\<open>{mensagem: "Atividade removida", removida: xs}\<close>;
  \<^item> \<open>Entrou a u\<close> is \<^verbatim>\<open>{mensagem: "Entrada na atividade realizada com sucesso",
    atividadeId: a, userId: u}\<close>;
  \<^item> \<open>Saiu a u\<close> is \<^verbatim>\<open>{mensagem: "Usu..rio saiu da atividade com sucesso",
    atividadeId: a, userId: u}\<close>.
\<close>

datatype corpo =
    Erro mensagem
  | Lista "objeto list"
  | Objeto objeto
  | Removida "objeto list"
  | Entrou jsnumber jval
  | Saiu jsnumber jsnumber

text \<open>
  A handler either sends a status and a body, or throws a \<^verbatim>\<open>TypeError\<close> before it
  sends anything (Express then answers on its own with status 500).
\<close>

datatype resposta = Resposta nat corpo | TypeError

section \<open>The handlers\<close>

text \<open>
  \<^verbatim>\<open>Number(...)\<close> and \<^verbatim>\<open>String.prototype.toLowerCase\<close> are the language's own; the
  handlers take them as the parameters \<open>toNumber\<close> and \<open>toLower\<close>, and every
  general theorem below holds for all such functions.
\<close>

text \<open>\<^verbatim>\<open>a.id === atividadeId\<close>, for a stored activity and a number.\<close>

definition id_igual :: "jsnumber \<Rightarrow> objeto \<Rightarrow> bool" where
  "id_igual n a = (case a ''id'' of None \<Rightarrow> False | Some v \<Rightarrow> strict_eq v (JNumber n))"

text \<open>\<^verbatim>\<open>p.userId === userId && p.atividadeId === atividadeId\<close>.\<close>

definition casa :: "jval \<Rightarrow> jsnumber \<Rightarrow> participacao \<Rightarrow> bool" where
  "casa u a p = (strict_eq (userId p) u \<and> num_seq (atividadeId p) a)"

text \<open>
  \<^verbatim>\<open>a.criador.toLowerCase() === criador.toLowerCase()\<close>: reading \<^verbatim>\<open>toLowerCase\<close> of
  \<^verbatim>\<open>undefined\<close> or \<^verbatim>\<open>null\<close> throws, and on any other value that is not a string
  \<^verbatim>\<open>toLowerCase\<close> is \<^verbatim>\<open>undefined\<close> and calling it throws.
\<close>

definition criador_igual :: "(string \<Rightarrow> string) \<Rightarrow> string \<Rightarrow> objeto \<Rightarrow> bool option" where
  "criador_igual toLower criador a =
     (case a ''criador'' of
        Some (JString s) \<Rightarrow> Some (toLower s = toLower criador)
      | _ \<Rightarrow> None)"

text \<open>The creator name of a stored activity, when it has one and it is a string.\<close>

definition criador_texto :: "objeto \<Rightarrow> string option" where
  "criador_texto a = (case a ''criador'' of Some (JString s) \<Rightarrow> Some s | _ \<Rightarrow> None)"

text \<open>
  \<^verbatim>\<open>GET /atividades\<close> (lines 340 to 354). The filter is applied when it is truthy, that
  is, a non-empty string. (The \<^verbatim>\<open>console.log\<close> of the filter is not modelled.)
\<close>

definition get_atividades :: "(string \<Rightarrow> string) \<Rightarrow> db \<Rightarrow> request \<Rightarrow> resposta \<times> db" where
  "get_atividades toLower d req =
     (case query_criador req of
        None \<Rightarrow> (Resposta 200 (Lista (atividades d)), d)
      | Some criador \<Rightarrow>
          if criador \<noteq> [] then
            (case filter_js (criador_igual toLower criador) (atividades d) of
               None \<Rightarrow> (TypeError, d)
             | Some filtradas \<Rightarrow> (Resposta 200 (Lista filtradas), d))
          else (Resposta 200 (Lista (atividades d)), d))"

text \<open>
  The participation check of \<^verbatim>\<open>GET /atividades/:id\<close>:
  \<^verbatim>\<open>db.participacoes.some((p) => p.userId === userId && p.atividadeId === atividadeId)\<close>
  with a number \<open>userId\<close>.
\<close>

definition isParticipating :: "db \<Rightarrow> jsnumber \<Rightarrow> jsnumber \<Rightarrow> bool" where
  "isParticipating d u a = list_ex (casa (JNumber u) a) (participacoes d)"

text \<open>
  \<^verbatim>\<open>GET /atividades/:id\<close> (lines 380 to 403). The query's \<^verbatim>\<open>userId\<close> is converted
  when it is truthy (a non-empty string) and is \<^verbatim>\<open>null\<close> otherwise; the response is
  \<^verbatim>\<open>{...atividade, participa}\<close>.
\<close>

definition get_atividade :: "(string \<Rightarrow> jsnumber) \<Rightarrow> db \<Rightarrow> request \<Rightarrow> resposta \<times> db" where
  "get_atividade toNumber d req =
     (let aid = toNumber (params_id req);
          uid = (case query_userId req of
                   None \<Rightarrow> None
                 | Some s \<Rightarrow> if s \<noteq> [] then Some (toNumber s) else None)
      in case find (id_igual aid) (atividades d) of
           None \<Rightarrow> (Resposta 404 (Erro Atividade_nao_encontrada), d)
         | Some atividade \<Rightarrow>
             (let participa = (case uid of None \<Rightarrow> False | Some u \<Rightarrow> isParticipating d u aid)
              in (Resposta 200 (Objeto (atividade(''participa'' \<mapsto> JBool participa))), d)))"

text \<open>
  \<^verbatim>\<open>POST /atividades\<close> (lines 427 to 434):
  \<^verbatim>\<open>nova = {id: db.atividades.length + 1, ...req.body}\<close>. The body is spread after
  \<^verbatim>\<open>id\<close>, so a member \<^verbatim>\<open>id\<close> of the body replaces the computed one.
\<close>

definition post_atividades :: "db \<Rightarrow> request \<Rightarrow> resposta \<times> db" where
  "post_atividades d req =
     (let nova = [''id'' \<mapsto> JNumber (Fin (of_nat (length (atividades d) + 1)))] ++ body req
      in (Resposta 201 (Objeto nova), d\<lparr>atividades := atividades d @ [nova]\<rparr>))"

text \<open>
  \<^verbatim>\<open>DELETE /atividades/:id\<close> (lines 450 to 457): the first activity whose id matches
  is spliced out and returned, in an array.
\<close>

definition delete_atividade :: "(string \<Rightarrow> jsnumber) \<Rightarrow> db \<Rightarrow> request \<Rightarrow> resposta \<times> db" where
  "delete_atividade toNumber d req =
     (case findIndex (id_igual (toNumber (params_id req))) (atividades d) of
        None \<Rightarrow> (Resposta 404 (Erro Atividade_nao_encontrada), d)
      | Some index \<Rightarrow>
          (let (removida, resto) = splice1 index (atividades d)
           in (Resposta 200 (Removida removida), d\<lparr>atividades := resto\<rparr>)))"

text \<open>
  \<^verbatim>\<open>POST /atividades/:id/join\<close> (lines 495 to 525). The body's \<^verbatim>\<open>userId\<close> is used as
  it was parsed: the handler tests it for truth, compares it and stores it, and never
  converts it.
\<close>

definition post_join :: "(string \<Rightarrow> jsnumber) \<Rightarrow> db \<Rightarrow> request \<Rightarrow> resposta \<times> db" where
  "post_join toNumber d req =
     (let aid = toNumber (params_id req) in
      case body req ''userId'' of
        None \<Rightarrow> (Resposta 400 (Erro UserId_obrigatorio), d)
      | Some uid \<Rightarrow>
          if \<not> truthy uid then (Resposta 400 (Erro UserId_obrigatorio), d)
          else
            (case find (id_igual aid) (atividades d) of
               None \<Rightarrow> (Resposta 404 (Erro Atividade_nao_encontrada), d)
             | Some atividade \<Rightarrow>
                 (case find (casa uid aid) (participacoes d) of
                    Some jaParticipa \<Rightarrow> (Resposta 400 (Erro Usuario_ja_participa), d)
                  | None \<Rightarrow>
                      (Resposta 200 (Entrou aid uid),
                       d\<lparr>participacoes :=
                           participacoes d @ [\<lparr>userId = uid, atividadeId = aid\<rparr>]\<rparr>))))"

text \<open>
  \<^verbatim>\<open>DELETE /usuarios/:userId/atividades/:id/leave\<close> (lines 550 to 571): both path
  parameters are converted to numbers.
\<close>

definition delete_leave :: "(string \<Rightarrow> jsnumber) \<Rightarrow> db \<Rightarrow> request \<Rightarrow> resposta \<times> db" where
  "delete_leave toNumber d req =
     (let aid = toNumber (params_id req);
          uid = toNumber (params_userId req)
      in case findIndex (casa (JNumber uid) aid) (participacoes d) of
           None \<Rightarrow> (Resposta 404 (Erro Usuario_nao_participa), d)
         | Some index \<Rightarrow>
             (Resposta 200 (Saiu aid uid),
              d\<lparr>participacoes := snd (splice1 index (participacoes d))\<rparr>))"

section \<open>Sequences of requests\<close>

datatype operacao = Listar | Obter | Criar | Remover | Entrar | Sair

text \<open>The dispatch of a request to its handler, as the routes are registered.\<close>

fun executa ::
  "(string \<Rightarrow> jsnumber) \<Rightarrow> (string \<Rightarrow> string) \<Rightarrow> operacao \<Rightarrow> db \<Rightarrow> request \<Rightarrow> resposta \<times> db"
where
  "executa toNumber toLower Listar d req = get_atividades toLower d req"
| "executa toNumber toLower Obter d req = get_atividade toNumber d req"
| "executa toNumber toLower Criar d req = post_atividades d req"
| "executa toNumber toLower Remover d req = delete_atividade toNumber d req"
| "executa toNumber toLower Entrar d req = post_join toNumber d req"
| "executa toNumber toLower Sair d req = delete_leave toNumber d req"

text \<open>The store after a sequence of requests, each run to its end before the next.\<close>

fun roda ::
  "(string \<Rightarrow> jsnumber) \<Rightarrow> (string \<Rightarrow> string) \<Rightarrow> db \<Rightarrow> (operacao \<times> request) list \<Rightarrow> db"
where
  "roda toNumber toLower d [] = d"
| "roda toNumber toLower d ((opr, req) # rs) =
     roda toNumber toLower (snd (executa toNumber toLower opr d req)) rs"

text \<open>The states the service can be in: the empty store and what any request makes of one.\<close>

inductive reachable :: "(string \<Rightarrow> jsnumber) \<Rightarrow> (string \<Rightarrow> string) \<Rightarrow> db \<Rightarrow> bool"
  for toNumber :: "string \<Rightarrow> jsnumber" and toLower :: "string \<Rightarrow> string"
where
  inicio: "reachable toNumber toLower db_vazio"
| passo: "reachable toNumber toLower d \<Longrightarrow>
          reachable toNumber toLower (snd (executa toNumber toLower opr d req))"

text \<open>
  The ids of the stored activities are 1, 2, ... in the order of the store: what creates
  alone, from bodies with no \<^verbatim>\<open>id\<close>, make of the empty store.
\<close>

definition ids_em_sequencia :: "objeto list \<Rightarrow> bool" where
  "ids_em_sequencia xs =
     (map (\<lambda>a. a ''id'') xs = map (\<lambda>k. Some (JNumber (Fin (of_nat k)))) [1..<Suc (length xs)])"

section \<open>Concrete requests and states\<close>

text \<open>
  The examples below need a conversion and a lower-casing to run with. \<open>Number_dec\<close>
  is \<^verbatim>\<open>Number\<close> on the strings the examples pass to it: the empty string is
  \<^verbatim>\<open>0\<close>, a string of decimal digits is its value, and a string with any other
  character (such as \<^verbatim>\<open>abc\<close>) is read as \<^verbatim>\<open>NaN\<close>. \<open>toLowerCase_ascii\<close> is
  \<^verbatim>\<open>toLowerCase\<close> on ASCII text: it sets bit 5 of the letters \<^verbatim>\<open>A\<close> to \<^verbatim>\<open>Z\<close>.
\<close>

definition Number_dec :: "string \<Rightarrow> jsnumber" where
  "Number_dec s =
     (if s = [] then Fin 0
      else if list_all (\<lambda>c. 48 \<le> (of_char c :: nat) \<and> (of_char c :: nat) \<le> 57) s
      then Fin (of_nat (foldl (\<lambda>n c. 10 * n + (of_char c - 48)) 0 s))
      else NaN)"

definition toLowerCase_ascii :: "string \<Rightarrow> string" where
  "toLowerCase_ascii s =
     map (\<lambda>c. if 65 \<le> (of_char c :: nat) \<and> (of_char c :: nat) \<le> 90
               then (case c of Char b0 b1 b2 b3 b4 b5 b6 b7 \<Rightarrow> Char b0 b1 b2 b3 b4 True b6 b7)
               else c) s"

text \<open>A request with nothing in it, and the requests the examples send.\<close>

definition pedido :: request where
  "pedido = \<lparr>params_id = [], params_userId = [], query_criador = None,
              query_userId = None, body = Map.empty\<rparr>"

definition criar :: "objeto \<Rightarrow> operacao \<times> request" where
  "criar b = (Criar, pedido\<lparr>body := b\<rparr>)"

definition remover :: "string \<Rightarrow> operacao \<times> request" where
  "remover i = (Remover, pedido\<lparr>params_id := i\<rparr>)"

definition entrar :: "string \<Rightarrow> jval \<Rightarrow> operacao \<times> request" where
  "entrar i u = (Entrar, pedido\<lparr>params_id := i, body := [''userId'' \<mapsto> u]\<rparr>)"

definition sair :: "string \<Rightarrow> string \<Rightarrow> operacao \<times> request" where
  "sair u i = (Sair, pedido\<lparr>params_userId := u, params_id := i\<rparr>)"

definition yoga :: objeto where
  "yoga = [''nome'' \<mapsto> JString ''Yoga'', ''criador'' \<mapsto> JString ''Ana'']"

definition corrida :: objeto where
  "corrida = [''nome'' \<mapsto> JString ''Corrida'', ''criador'' \<mapsto> JString ''Bia'']"

definition danca :: objeto where
  "danca = [''nome'' \<mapsto> JString ''Danca'', ''criador'' \<mapsto> JString ''Caio'']"


text \<open>The store after \<^verbatim>\<open>yoga\<close> was created and user 42 joined it.\<close>

definition d_yoga_42 :: db where
  "d_yoga_42 =
     roda Number_dec toLowerCase_ascii db_vazio [criar yoga, entrar ''1'' (JNumber (Fin 42))]"

text \<open>
  Two activities are created and the first is deleted: one activity, with id 2, is left.
  Creating a third then computes \<^verbatim>\<open>length + 1 = 2\<close> again.
\<close>

definition d_um_removido :: db where
  "d_um_removido =
     roda Number_dec toLowerCase_ascii db_vazio [criar yoga, criar corrida, remover ''1'']"

definition d_colisao :: db where
  "d_colisao = snd (post_atividades d_um_removido (snd (criar danca)))"

text \<open>The store after an activity was created from a body with no \<^verbatim>\<open>criador\<close>.\<close>

definition d_sem_criador :: db where
  "d_sem_criador =
     roda Number_dec toLowerCase_ascii db_vazio [criar [''nome'' \<mapsto> JString ''Yoga'']]"


section \<open>Facts about the array methods and the comparisons\<close>

lemmas ex_defs = criar_def remover_def entrar_def sair_def pedido_def yoga_def
  Number_dec_def db_vazio_def post_atividades_def post_join_def delete_leave_def
  delete_atividade_def get_atividade_def get_atividades_def id_igual_def casa_def num_seq_def
  splice1_def isParticipating_def Let_def map_add_def

lemma findIndex_None: "findIndex P xs = None \<longleftrightarrow> \<not> list_ex P xs"
  by (induction xs) auto

lemma findIndex_Some:
  "findIndex P xs = Some i \<Longrightarrow>
     i < length xs \<and> P (xs ! i) \<and> \<not> list_ex P (take i xs)"
  by (induction xs arbitrary: i) (auto split: if_splits)

lemma find_None_ex: "find P xs = None \<longleftrightarrow> \<not> list_ex P xs"
  by (induction xs) auto


lemma strict_eq_sym: "strict_eq a b \<Longrightarrow> strict_eq b a"
  by (cases a; cases b) (auto simp: num_seq_def)

lemma strict_eq_trans: "strict_eq a b \<Longrightarrow> strict_eq b c \<Longrightarrow> strict_eq a c"
  by (cases a; cases b; cases c) (auto simp: num_seq_def)

lemma length_filter_splice:
  "length (filter P (take i xs @ drop (Suc i) xs)) \<le> length (filter P xs)"
proof (cases "i < length xs")
  case True
  then have "xs = take i xs @ xs ! i # drop (Suc i) xs"
    by (rule id_take_nth_drop)
  then have "filter P xs = filter P (take i xs) @ filter P (xs ! i # drop (Suc i) xs)"
    by (metis filter_append)
  then show ?thesis by simp
next
  case False
  then show ?thesis by simp
qed

section \<open>What each handler leaves alone\<close>

lemma frame_delete: "participacoes (snd (delete_atividade toNumber d req)) = participacoes d"
  by (simp add: delete_atividade_def split: option.splits prod.splits)

lemma frame_join: "atividades (snd (post_join toNumber d req)) = atividades d"
  by (simp add: post_join_def Let_def split: option.splits)

lemma frame_leave: "atividades (snd (delete_leave toNumber d req)) = atividades d"
  by (simp add: delete_leave_def Let_def split: option.splits)

lemma frame_create: "participacoes (snd (post_atividades d req)) = participacoes d"
  by (simp add: post_atividades_def Let_def)

lemma frame_list: "snd (get_atividades toLower d req) = d"
  by (simp add: get_atividades_def split: option.splits)

lemma frame_get: "snd (get_atividade toNumber d req) = d"
  by (simp add: get_atividade_def Let_def split: option.splits)

text \<open>
  C9. Each component mutates only its own collection: deleting an activity leaves the
  participations as they were (no cascade), joining and leaving leave the activities as
  they were; likewise creating an activity leaves the participations, and listing and
  fetching change nothing.
\<close>

theorem each_component_mutates_only_its_collection:
  "participacoes (snd (delete_atividade toNumber d req)) = participacoes d \<and>
   atividades (snd (post_join toNumber d req)) = atividades d \<and>
   atividades (snd (delete_leave toNumber d req)) = atividades d \<and>
   participacoes (snd (post_atividades d req)) = participacoes d \<and>
   snd (get_atividades toLower d req) = d \<and>
   snd (get_atividade toNumber d req) = d"
  by (simp add: frame_delete frame_join frame_leave frame_create frame_list frame_get)

section \<open>One participation per pair\<close>

lemma casa_outro:
  assumes "casa u' a' \<lparr>userId = u, atividadeId = a\<rparr>" and "casa u' a' p"
  shows "casa u a p"
proof -
  from assms have "strict_eq u u'" "strict_eq (userId p) u'" "a \<noteq> NaN" "a = a'"
      "atividadeId p = a'"
    by (auto simp: casa_def num_seq_def)
  then have "strict_eq (userId p) u"
    by (blast intro: strict_eq_sym strict_eq_trans)
  with \<open>a \<noteq> NaN\<close> \<open>a = a'\<close> \<open>atividadeId p = a'\<close> show ?thesis
    by (simp add: casa_def num_seq_def)
qed

lemma pares_push:
  assumes inv: "\<And>u' a'. length (filter (casa u' a') ps) \<le> 1"
    and novo: "find (casa u a) ps = None"
  shows "length (filter (casa u' a') (ps @ [\<lparr>userId = u, atividadeId = a\<rparr>])) \<le> 1"
proof (cases "casa u' a' \<lparr>userId = u, atividadeId = a\<rparr>")
  case True
  have "filter (casa u' a') ps = []"
  proof (rule ccontr)
    assume "filter (casa u' a') ps \<noteq> []"
    then obtain p where "p \<in> set ps" "casa u' a' p"
      by (metis filter_False)
    with True have "p \<in> set ps" "casa u a p"
      by (auto intro: casa_outro)
    then have "list_ex (casa u a) ps"
      by (auto simp: list_ex_iff)
    with novo show False
      by (simp add: find_None_ex)
  qed
  with True show ?thesis by simp
next
  case False
  with inv show ?thesis by simp
qed

lemma reachable_pares_unicos:
  assumes "reachable toNumber toLower d"
  shows "length (filter (casa u a) (participacoes d)) \<le> 1"
  using assms
proof (induction arbitrary: u a)
  case inicio
  show ?case by (simp add: db_vazio_def)
next
  case (passo d opr req)
  show ?case
  proof (cases opr)
    case Listar
    with passo.IH show ?thesis by (simp add: frame_list)
  next
    case Obter
    with passo.IH show ?thesis by (simp add: frame_get)
  next
    case Criar
    with passo.IH show ?thesis by (simp add: frame_create)
  next
    case Remover
    with passo.IH show ?thesis by (simp add: frame_delete)
  next
    case Entrar
    have push: "length (filter (casa u a)
        (participacoes d @ [\<lparr>userId = v, atividadeId = b\<rparr>])) \<le> 1"
      if "find (casa v b) (participacoes d) = None" for v b
      using passo.IH that by (rule pares_push)
    show ?thesis
      unfolding Entrar executa.simps post_join_def Let_def
      using passo.IH [of u a] push
      by (simp split: option.splits)
  next
    case Sair
    have "length (filter (casa u a) (snd (splice1 i (participacoes d))))
            \<le> length (filter (casa u a) (participacoes d))" for i
      unfolding splice1_def snd_conv by (rule length_filter_splice)
    with passo.IH [of u a] show ?thesis
      unfolding Sair executa.simps delete_leave_def Let_def
      by (auto split: option.splits intro: order_trans)
  qed
qed

lemma reachable_roda:
  "reachable toNumber toLower d \<Longrightarrow> reachable toNumber toLower (roda toNumber toLower d rs)"
proof (induction rs arbitrary: d)
  case Nil
  then show ?case by simp
next
  case (Cons r rs)
  obtain opr req where r: "r = (opr, req)" by (cases r)
  from Cons.prems have "reachable toNumber toLower (snd (executa toNumber toLower opr d req))"
    by (rule reachable.passo)
  then show ?case unfolding r roda.simps by (rule Cons.IH)
qed









lemma d_yoga_42_reachable: "reachable Number_dec toLowerCase_ascii d_yoga_42"
  unfolding d_yoga_42_def by (rule reachable_roda) (rule reachable.inicio)

lemma d_yoga_42_participacoes:
  "participacoes d_yoga_42 = [\<lparr>userId = JNumber (Fin 42), atividadeId = Fin 1\<rparr>]"
  by (simp add: d_yoga_42_def ex_defs)

lemma d_yoga_42_atividades: "atividades d_yoga_42 = [yoga(''id'' \<mapsto> JNumber (Fin 1))]"
  by (simp add: d_yoga_42_def ex_defs fun_eq_iff)



section \<open>Joining\<close>




section \<open>Creating\<close>

lemma spread_sem_id: "b ''id'' = None \<Longrightarrow> [''id'' \<mapsto> v] ++ b = b(''id'' \<mapsto> v)"
  by (auto simp: fun_eq_iff map_add_def split: option.splits)

text \<open>
  Every create answers 201 with the new record, appends it to the activities, and so
  makes them one longer; the record has the body's members, and the id
  \<^verbatim>\<open>length + 1\<close> unless the body has a member \<^verbatim>\<open>id\<close> of its own.
\<close>

lemma post_atividades_result:
  "\<exists>nova.
     post_atividades d req =
       (Resposta 201 (Objeto nova), d\<lparr>atividades := atividades d @ [nova]\<rparr>) \<and>
     nova ''id'' =
       (case body req ''id'' of
          None \<Rightarrow> Some (JNumber (Fin (of_nat (length (atividades d) + 1))))
        | Some v \<Rightarrow> Some v) \<and>
     (\<forall>k. k \<noteq> ''id'' \<longrightarrow> nova k = body req k) \<and>
     length (atividades (snd (post_atividades d req))) = length (atividades d) + 1"
  by (auto simp: post_atividades_def Let_def map_add_def split: option.splits)

lemma post_atividades_sem_id:
  assumes "body req ''id'' = None"
  shows "post_atividades d req =
    (Resposta 201
       (Objeto ((body req)(''id'' \<mapsto> JNumber (Fin (of_nat (length (atividades d) + 1)))))),
     d\<lparr>atividades := atividades d @
        [(body req)(''id'' \<mapsto> JNumber (Fin (of_nat (length (atividades d) + 1))))]\<rparr>)"
  using assms by (simp add: post_atividades_def Let_def spread_sem_id)

text \<open>
  C3 at a body that has a member \<^verbatim>\<open>id\<close>: on the empty store, where
  \<^verbatim>\<open>length + 1\<close> is 1, creating from the body \<^verbatim>\<open>{"id": 7}\<close> stores and returns a
  record whose id is 7.
\<close>

theorem create_body_id_replaces_assigned_id:
  "post_atividades db_vazio (pedido\<lparr>body := [''id'' \<mapsto> JNumber (Fin 7)]\<rparr>)
     = (Resposta 201 (Objeto [''id'' \<mapsto> JNumber (Fin 7)]),
        \<lparr>atividades = [[''id'' \<mapsto> JNumber (Fin 7)]], participacoes = []\<rparr>) \<and>
   length (atividades db_vazio) + 1 = 1"
  by (simp add: ex_defs fun_eq_iff)

section \<open>Ids after a deletion\<close>

lemma d_um_removido_eq:
  "d_um_removido = \<lparr>atividades = [corrida(''id'' \<mapsto> JNumber (Fin 2))], participacoes = []\<rparr>"
  by (simp add: d_um_removido_def ex_defs corrida_def fun_eq_iff)

lemma d_colisao_eq:
  "d_colisao =
     \<lparr>atividades = [corrida(''id'' \<mapsto> JNumber (Fin 2)), danca(''id'' \<mapsto> JNumber (Fin 2))],
      participacoes = []\<rparr>"
  by (simp add: d_colisao_def d_um_removido_eq post_atividades_sem_id criar_def pedido_def
      danca_def)

lemma corrida_danca: "corrida(''id'' \<mapsto> JNumber (Fin 2)) \<noteq> danca(''id'' \<mapsto> JNumber (Fin 2))"
proof
  assume "corrida(''id'' \<mapsto> JNumber (Fin 2)) = danca(''id'' \<mapsto> JNumber (Fin 2))"
  then have "(corrida(''id'' \<mapsto> JNumber (Fin 2))) ''nome''
      = (danca(''id'' \<mapsto> JNumber (Fin 2))) ''nome''"
    by simp
  then show False by (simp add: corrida_def danca_def)
qed

text \<open>
  C4. There is a sequence of create and delete requests, none of which sends an id of
  its own, after which a create gives the new activity the id of an activity that is
  still stored: the store then holds two different activities with the same id 2.
\<close>

theorem create_after_delete_reuses_a_stored_id:
  "\<exists>rs b nova d'.
     list_all (\<lambda>r. (fst r = Criar \<and> body (snd r) ''id'' = None) \<or> fst r = Remover) rs \<and>
     b ''id'' = None \<and>
     post_atividades (roda Number_dec toLowerCase_ascii db_vazio rs) (pedido\<lparr>body := b\<rparr>)
       = (Resposta 201 (Objeto nova), d') \<and>
     (\<exists>velha. atividades (roda Number_dec toLowerCase_ascii db_vazio rs) = [velha] \<and>
        atividades d' = [velha, nova] \<and>
        velha \<noteq> nova \<and>
        nova ''id'' = Some (JNumber (Fin 2)) \<and>
        velha ''id'' = Some (JNumber (Fin 2)))"
proof -
  let ?rs = "[criar yoga, criar corrida, remover ''1'']"
  have 1: "list_all (\<lambda>r. (fst r = Criar \<and> body (snd r) ''id'' = None) \<or> fst r = Remover) ?rs"
    by (simp add: criar_def remover_def pedido_def yoga_def corrida_def)
  have 2: "danca ''id'' = None" by (simp add: danca_def)
  have 3: "roda Number_dec toLowerCase_ascii db_vazio ?rs = d_um_removido"
    by (simp add: d_um_removido_def)
  have 4: "post_atividades d_um_removido (pedido\<lparr>body := danca\<rparr>)
       = (Resposta 201 (Objeto (danca(''id'' \<mapsto> JNumber (Fin 2)))), d_colisao)"
    by (simp add: d_colisao_eq d_um_removido_eq post_atividades_sem_id pedido_def danca_def)
  have 5: "atividades d_um_removido = [corrida(''id'' \<mapsto> JNumber (Fin 2))]"
    by (simp add: d_um_removido_eq)
  have 6: "atividades d_colisao
      = [corrida(''id'' \<mapsto> JNumber (Fin 2)), danca(''id'' \<mapsto> JNumber (Fin 2))]"
    by (simp add: d_colisao_eq)
  show ?thesis
    apply (rule exI [of _ ?rs])
    apply (rule exI [of _ danca])
    apply (rule exI [of _ "danca(''id'' \<mapsto> JNumber (Fin 2))"])
    apply (rule exI [of _ d_colisao])
    apply (simp only: 3)
    apply (intro conjI)
       apply (rule 1 [unfolded 3])
      apply (rule 2)
     apply (rule 4)
    apply (rule exI [of _ "corrida(''id'' \<mapsto> JNumber (Fin 2))"])
    apply (simp add: 5 6 corrida_danca)
    done
qed

section \<open>Deleting and fetching\<close>

lemma findIndex_split:
  assumes "findIndex P xs = Some i"
  shows "xs = take i xs @ xs ! i # drop (Suc i) xs \<and> P (xs ! i) \<and> \<not> list_ex P (take i xs)
         \<and> take 1 (drop i xs) = [xs ! i]"
proof -
  from assms have i: "i < length xs" "P (xs ! i)" "\<not> list_ex P (take i xs)"
    by (auto dest: findIndex_Some)
  from i(1) have "xs = take i xs @ xs ! i # drop (Suc i) xs"
    by (rule id_take_nth_drop)
  moreover from i(1) have "take 1 (drop i xs) = [xs ! i]"
    by (simp add: take_Suc_conv_app_nth Cons_nth_drop_Suc [symmetric])
  ultimately show ?thesis using i by blast
qed

lemma delete_atividade_found:
  assumes "list_ex (id_igual (toNumber (params_id req))) (atividades d)"
  shows "\<exists>antes a depois.
       atividades d = antes @ a # depois \<and>
       \<not> list_ex (id_igual (toNumber (params_id req))) antes \<and>
       id_igual (toNumber (params_id req)) a \<and>
       delete_atividade toNumber d req =
         (Resposta 200 (Removida [a]), d\<lparr>atividades := antes @ depois\<rparr>)"
proof -
  let ?P = "id_igual (toNumber (params_id req))"
  from assms obtain i where i: "findIndex ?P (atividades d) = Some i"
    by (cases "findIndex ?P (atividades d)") (simp_all add: findIndex_None)
  let ?xs = "atividades d"
  from findIndex_split [OF i]
  have s: "?xs = take i ?xs @ ?xs ! i # drop (Suc i) ?xs" "?P (?xs ! i)"
      "\<not> list_ex ?P (take i ?xs)" "take 1 (drop i ?xs) = [?xs ! i]"
    by blast+
  have "delete_atividade toNumber d req =
         (Resposta 200 (Removida [?xs ! i]), d\<lparr>atividades := take i ?xs @ drop (Suc i) ?xs\<rparr>)"
    using i s(4) by (simp add: delete_atividade_def splice1_def)
  with s(1,2,3) show ?thesis by blast
qed

lemma get_atividade_not_found:
  assumes "\<not> list_ex (id_igual (toNumber (params_id req))) (atividades d)"
  shows "get_atividade toNumber d req = (Resposta 404 (Erro Atividade_nao_encontrada), d)"
proof -
  from assms have "find (id_igual (toNumber (params_id req))) (atividades d) = None"
    by (simp add: find_None_ex)
  then show ?thesis by (simp add: get_atividade_def Let_def)
qed

lemma find_first:
  "\<not> list_ex P xs \<Longrightarrow> P x \<Longrightarrow> find P (xs @ [x]) = Some x"
  by (induction xs) auto

text \<open>
  While the ids are in sequence, the id a create computes is new, and a get of it right
  after the create returns the created record with \<^verbatim>\<open>participa\<close>.
\<close>

lemma ids_em_sequencia_vazio: "ids_em_sequencia []"
  by (simp add: ids_em_sequencia_def)

lemma ids_em_sequencia_create:
  assumes "ids_em_sequencia (atividades d)" and "body req ''id'' = None"
  shows "ids_em_sequencia (atividades (snd (post_atividades d req)))"
  using assms by (simp add: post_atividades_sem_id ids_em_sequencia_def)

lemma ids_em_sequencia_fresh:
  assumes "ids_em_sequencia xs"
  shows "\<not> list_ex (id_igual (Fin (of_nat (length xs + 1)))) xs"
proof
  assume "list_ex (id_igual (Fin (of_nat (length xs + 1)))) xs"
  then obtain a where a: "a \<in> set xs" "id_igual (Fin (of_nat (length xs + 1))) a"
    by (auto simp: list_ex_iff)
  from a(1) have "a ''id'' \<in> set (map (\<lambda>a. a ''id'') xs)"
    by simp
  with assms obtain k where k: "a ''id'' = Some (JNumber (Fin (of_nat k)))" "k \<le> length xs"
    unfolding ids_em_sequencia_def by auto
  with a(2) show False
    by (simp add: id_igual_def num_seq_def)
qed

lemma get_after_create_in_sequence:
  assumes "ids_em_sequencia (atividades d)" and "body req ''id'' = None"
    and "toNumber (params_id req') = Fin (of_nat (length (atividades d) + 1))"
  shows "\<exists>nova d' participa.
           post_atividades d req = (Resposta 201 (Objeto nova), d') \<and>
           get_atividade toNumber d' req' =
             (Resposta 200 (Objeto (nova(''participa'' \<mapsto> JBool participa))), d')"
proof -
  let ?nova = "(body req)(''id'' \<mapsto> JNumber (Fin (of_nat (length (atividades d) + 1))))"
  let ?d' = "d\<lparr>atividades := atividades d @ [?nova]\<rparr>"
  from assms(2) have c: "post_atividades d req = (Resposta 201 (Objeto ?nova), ?d')"
    by (rule post_atividades_sem_id)
  have i: "id_igual (toNumber (params_id req')) ?nova"
    by (simp add: assms(3) id_igual_def num_seq_def)
  from assms(1) have f: "\<not> list_ex (id_igual (toNumber (params_id req'))) (atividades d)"
    unfolding assms(3) by (rule ids_em_sequencia_fresh)
  have "find (id_igual (toNumber (params_id req'))) (atividades ?d') = Some ?nova"
    using f i by (simp add: find_first)
  then have "\<exists>participa. get_atividade toNumber ?d' req' =
             (Resposta 200 (Objeto (?nova(''participa'' \<mapsto> JBool participa))), ?d')"
    by (simp add: get_atividade_def Let_def) blast
  with c show ?thesis by blast
qed

text \<open>
  C5, as the handler has it. For every id, delete answers 404 with \<^verbatim>\<open>{erro}\<close> if and
  only if no stored activity has that id. Otherwise it removes exactly one record, the
  first whose id matches, and returns it; and if no later record has the same id, a get
  on that id right afterwards answers 404.
\<close>

theorem delete_atividade_by_id:
  "(fst (delete_atividade toNumber d req) = Resposta 404 (Erro Atividade_nao_encontrada)
      \<longleftrightarrow> \<not> list_ex (id_igual (toNumber (params_id req))) (atividades d)) \<and>
   (list_ex (id_igual (toNumber (params_id req))) (atividades d) \<longrightarrow>
     (\<exists>antes a depois.
        atividades d = antes @ a # depois \<and>
        \<not> list_ex (id_igual (toNumber (params_id req))) antes \<and>
        id_igual (toNumber (params_id req)) a \<and>
        delete_atividade toNumber d req =
          (Resposta 200 (Removida [a]), d\<lparr>atividades := antes @ depois\<rparr>) \<and>
        (\<not> list_ex (id_igual (toNumber (params_id req))) depois \<longrightarrow>
           get_atividade toNumber (snd (delete_atividade toNumber d req))
               (req'\<lparr>params_id := params_id req\<rparr>)
             = (Resposta 404 (Erro Atividade_nao_encontrada),
                snd (delete_atividade toNumber d req)))))"
proof (intro conjI impI)
  show "fst (delete_atividade toNumber d req) = Resposta 404 (Erro Atividade_nao_encontrada)
      \<longleftrightarrow> \<not> list_ex (id_igual (toNumber (params_id req))) (atividades d)"
    by (auto simp: delete_atividade_def findIndex_None [symmetric]
        split: option.splits prod.splits)
next
  assume "list_ex (id_igual (toNumber (params_id req))) (atividades d)"
  then obtain antes a depois where f:
    "atividades d = antes @ a # depois"
    "\<not> list_ex (id_igual (toNumber (params_id req))) antes"
    "id_igual (toNumber (params_id req)) a"
    "delete_atividade toNumber d req =
         (Resposta 200 (Removida [a]), d\<lparr>atividades := antes @ depois\<rparr>)"
    using delete_atividade_found by blast
  have "get_atividade toNumber (snd (delete_atividade toNumber d req))
               (req'\<lparr>params_id := params_id req\<rparr>)
             = (Resposta 404 (Erro Atividade_nao_encontrada),
                snd (delete_atividade toNumber d req))"
    if "\<not> list_ex (id_igual (toNumber (params_id req))) depois"
  proof (rule get_atividade_not_found)
    from that f(2) show "\<not> list_ex
            (id_igual (toNumber (params_id (req'\<lparr>params_id := params_id req\<rparr>))))
            (atividades (snd (delete_atividade toNumber d req)))"
      by (simp add: f(4))
  qed
  with f show "\<exists>antes a depois.
        atividades d = antes @ a # depois \<and>
        \<not> list_ex (id_igual (toNumber (params_id req))) antes \<and>
        id_igual (toNumber (params_id req)) a \<and>
        delete_atividade toNumber d req =
          (Resposta 200 (Removida [a]), d\<lparr>atividades := antes @ depois\<rparr>) \<and>
        (\<not> list_ex (id_igual (toNumber (params_id req))) depois \<longrightarrow>
           get_atividade toNumber (snd (delete_atividade toNumber d req))
               (req'\<lparr>params_id := params_id req\<rparr>)
             = (Resposta 404 (Erro Atividade_nao_encontrada),
                snd (delete_atividade toNumber d req)))"
    by blast
qed

text \<open>
  Deleting activity 1 of the store that holds it alone: it is returned, the store is
  empty, and a get of activity 1 answers 404.
\<close>

theorem delete_atividade_by_id_witness:
  "list_ex (id_igual (Number_dec ''1'')) (atividades d_yoga_42) \<and>
   delete_atividade Number_dec d_yoga_42 (snd (remover ''1''))
     = (Resposta 200 (Removida [yoga(''id'' \<mapsto> JNumber (Fin 1))]),
        d_yoga_42\<lparr>atividades := []\<rparr>) \<and>
   get_atividade Number_dec (snd (delete_atividade Number_dec d_yoga_42 (snd (remover ''1''))))
       (pedido\<lparr>params_id := ''1''\<rparr>)
     = (Resposta 404 (Erro Atividade_nao_encontrada),
        snd (delete_atividade Number_dec d_yoga_42 (snd (remover ''1''))))"
proof -
  have p: "params_id (snd (remover ''1'')) = ''1''"
    by (simp add: remover_def pedido_def)
  have n: "Number_dec ''1'' = Fin 1"
    by (simp add: Number_dec_def)
  have e: "list_ex (id_igual (Number_dec ''1'')) (atividades d_yoga_42)"
    by (simp add: d_yoga_42_atividades n id_igual_def num_seq_def)
  from delete_atividade_by_id [of Number_dec d_yoga_42 "snd (remover ''1'')" pedido] e
  obtain antes a depois where f:
    "atividades d_yoga_42 = antes @ a # depois"
    "delete_atividade Number_dec d_yoga_42 (snd (remover ''1'')) =
       (Resposta 200 (Removida [a]), d_yoga_42\<lparr>atividades := antes @ depois\<rparr>)"
    "\<not> list_ex (id_igual (Number_dec (params_id (snd (remover ''1''))))) depois \<longrightarrow>
       get_atividade Number_dec
           (snd (delete_atividade Number_dec d_yoga_42 (snd (remover ''1''))))
           (pedido\<lparr>params_id := params_id (snd (remover ''1''))\<rparr>)
         = (Resposta 404 (Erro Atividade_nao_encontrada),
            snd (delete_atividade Number_dec d_yoga_42 (snd (remover ''1''))))"
    unfolding p by blast
  from f(1) have "antes = [] \<and> a = yoga(''id'' \<mapsto> JNumber (Fin 1)) \<and> depois = []"
    by (simp add: d_yoga_42_atividades append_eq_Cons_conv Cons_eq_append_conv)
  with f(2,3) e show ?thesis
    by (simp add: p)
qed

text \<open>
  C5 as stated fails: in the store reached by create, create, delete 1, create, two
  activities have id 2. Deleting id 2 removes the first of them, and a get of id 2 right
  afterwards answers 200 with the second.
\<close>

theorem get_after_delete_counterexample:
  "fst (delete_atividade Number_dec d_colisao (snd (remover ''2'')))
     = Resposta 200 (Removida [corrida(''id'' \<mapsto> JNumber (Fin 2))]) \<and>
   fst (get_atividade Number_dec
          (snd (delete_atividade Number_dec d_colisao (snd (remover ''2''))))
          (pedido\<lparr>params_id := ''2''\<rparr>))
     = Resposta 200 (Objeto (danca(''id'' \<mapsto> JNumber (Fin 2), ''participa'' \<mapsto> JBool False)))"
  by (simp add: d_colisao_eq remover_def pedido_def delete_atividade_def get_atividade_def
      Number_dec_def id_igual_def num_seq_def splice1_def corrida_def danca_def Let_def)




section \<open>Leaving\<close>

lemma splice_unique:
  assumes "length (filter P xs) \<le> 1" and "findIndex P xs = Some i"
  shows "\<not> list_ex P (take i xs @ drop (Suc i) xs)"
proof -
  from findIndex_split [OF assms(2)]
  have s: "xs = take i xs @ xs ! i # drop (Suc i) xs" and p: "P (xs ! i)"
    by blast+
  from s have "filter P xs = filter P (take i xs) @ filter P (xs ! i # drop (Suc i) xs)"
    by (metis filter_append)
  with p have "length (filter P xs) =
      length (filter P (take i xs)) + 1 + length (filter P (drop (Suc i) xs))"
    by simp
  with assms(1) have "filter P (take i xs) = []" "filter P (drop (Suc i) xs) = []"
    by simp_all
  then show ?thesis
    by (auto simp: list_ex_iff filter_empty_conv)
qed

lemma delete_leave_changes:
  assumes "participacoes (snd (delete_leave toNumber d req)) \<noteq> participacoes d"
  shows "list_ex (casa (JNumber (toNumber (params_userId req))) (toNumber (params_id req)))
           (participacoes d)"
proof (rule ccontr)
  assume "\<not> list_ex (casa (JNumber (toNumber (params_userId req))) (toNumber (params_id req)))
           (participacoes d)"
  then have "findIndex (casa (JNumber (toNumber (params_userId req))) (toNumber (params_id req)))
           (participacoes d) = None"
    by (simp add: findIndex_None)
  then have "delete_leave toNumber d req = (Resposta 404 (Erro Usuario_nao_participa), d)"
    by (simp add: delete_leave_def Let_def)
  with assms show False by simp
qed

text \<open>
  C7. In every reachable state and for every leave request: if the leave succeeds for
  the pair (\<open>u\<close>, \<open>a\<close>), then afterwards \<open>isParticipating u a\<close> is false and the same
  leave, sent again, answers 404 with \<^verbatim>\<open>{erro}\<close> and changes nothing; and a leave
  changes the participations only when a record matching its pair is stored.
\<close>

theorem leave_removes_the_pair:
  assumes "reachable toNumber toLower d"
  shows "(fst (delete_leave toNumber d req) = Resposta 200 (Saiu a u) \<longrightarrow>
            a = toNumber (params_id req) \<and> u = toNumber (params_userId req) \<and>
            \<not> isParticipating (snd (delete_leave toNumber d req)) u a \<and>
            delete_leave toNumber (snd (delete_leave toNumber d req)) req
              = (Resposta 404 (Erro Usuario_nao_participa), snd (delete_leave toNumber d req))) \<and>
         (participacoes (snd (delete_leave toNumber d req)) \<noteq> participacoes d \<longrightarrow>
            list_ex (casa (JNumber (toNumber (params_userId req))) (toNumber (params_id req)))
              (participacoes d))"
proof (intro conjI impI)
  let ?P = "casa (JNumber (toNumber (params_userId req))) (toNumber (params_id req))"
  let ?d' = "snd (delete_leave toNumber d req)"
  assume ok: "fst (delete_leave toNumber d req) = Resposta 200 (Saiu a u)"
  then obtain i where i: "findIndex ?P (participacoes d) = Some i"
    by (cases "findIndex ?P (participacoes d)") (simp_all add: delete_leave_def Let_def)
  with ok show a: "a = toNumber (params_id req)" and u: "u = toNumber (params_userId req)"
    by (simp_all add: delete_leave_def Let_def)
  from i have d': "participacoes ?d' = take i (participacoes d) @ drop (Suc i) (participacoes d)"
    by (simp add: delete_leave_def Let_def splice1_def)
  from assms have "length (filter ?P (participacoes d)) \<le> 1"
    by (rule reachable_pares_unicos)
  then have none: "\<not> list_ex ?P (participacoes ?d')"
    unfolding d' using i by (rule splice_unique)
  then show "\<not> isParticipating ?d' u a"
    by (simp add: isParticipating_def a u)
  from none have "findIndex ?P (participacoes ?d') = None"
    by (simp add: findIndex_None)
  then show "delete_leave toNumber ?d' req = (Resposta 404 (Erro Usuario_nao_participa), ?d')"
    by (simp add: delete_leave_def [of toNumber ?d'] Let_def)
next
  assume "participacoes (snd (delete_leave toNumber d req)) \<noteq> participacoes d"
  then show "list_ex (casa (JNumber (toNumber (params_userId req))) (toNumber (params_id req)))
              (participacoes d)"
    by (rule delete_leave_changes)
qed

text \<open>
  User 42 leaves activity 1 in the store where that is the only participation: the
  leave succeeds and empties the participations, the check is false, and a second leave
  answers 404.
\<close>

theorem leave_removes_the_pair_witness:
  "reachable Number_dec toLowerCase_ascii d_yoga_42 \<and>
   delete_leave Number_dec d_yoga_42 (snd (sair ''42'' ''1''))
     = (Resposta 200 (Saiu (Fin 1) (Fin 42)), d_yoga_42\<lparr>participacoes := []\<rparr>) \<and>
   \<not> isParticipating (d_yoga_42\<lparr>participacoes := []\<rparr>) (Fin 42) (Fin 1) \<and>
   delete_leave Number_dec (d_yoga_42\<lparr>participacoes := []\<rparr>) (snd (sair ''42'' ''1''))
     = (Resposta 404 (Erro Usuario_nao_participa), d_yoga_42\<lparr>participacoes := []\<rparr>) \<and>
   list_ex (casa (JNumber (Fin 42)) (Fin 1)) (participacoes d_yoga_42)"
proof -
  have l: "delete_leave Number_dec d_yoga_42 (snd (sair ''42'' ''1''))
     = (Resposta 200 (Saiu (Fin 1) (Fin 42)), d_yoga_42\<lparr>participacoes := []\<rparr>)"
    by (simp add: delete_leave_def sair_def pedido_def Number_dec_def d_yoga_42_participacoes
        casa_def num_seq_def splice1_def Let_def)
  have ne: "participacoes (snd (delete_leave Number_dec d_yoga_42 (snd (sair ''42'' ''1''))))
      \<noteq> participacoes d_yoga_42"
    by (simp add: l d_yoga_42_participacoes)
  have p: "Number_dec (params_id (snd (sair ''42'' ''1''))) = Fin 1"
      "Number_dec (params_userId (snd (sair ''42'' ''1''))) = Fin 42"
    by (simp_all add: sair_def pedido_def Number_dec_def)
  from leave_removes_the_pair
         [OF d_yoga_42_reachable, of "snd (sair ''42'' ''1'')" "Fin 1" "Fin 42"]
    l ne d_yoga_42_reachable
  show ?thesis
    by (simp add: p)
qed

section \<open>Listing\<close>

lemma criador_igual_texto:
  "criador_igual toLower x a = map_option (\<lambda>s. toLower s = toLower x) (criador_texto a)"
  by (simp add: criador_igual_def criador_texto_def split: option.splits jval.splits)

lemma filter_js_criador:
  assumes "list_all (\<lambda>a. criador_texto a \<noteq> None) xs"
  shows "filter_js (criador_igual toLower x) xs =
           Some (filter (\<lambda>a. map_option toLower (criador_texto a) = Some (toLower x)) xs)"
  using assms
proof (induction xs)
  case Nil
  show ?case by simp
next
  case (Cons a xs)
  from Cons.prems obtain s where s: "criador_texto a = Some s"
    by auto
  from Cons.prems have "list_all (\<lambda>a. criador_texto a \<noteq> None) xs"
    by simp
  then have "filter_js (criador_igual toLower x) xs =
           Some (filter (\<lambda>a. map_option toLower (criador_texto a) = Some (toLower x)) xs)"
    by (rule Cons.IH)
  moreover have "criador_igual toLower x a = Some (toLower s = toLower x)"
    by (simp add: criador_igual_texto s)
  ultimately show ?case
    by (simp add: s)
qed

text \<open>
  With a non-empty filter, the handler throws as soon as one stored activity has no
  string \<^verbatim>\<open>criador\<close>.
\<close>

lemma filter_js_throws:
  assumes "\<not> list_all (\<lambda>a. criador_texto a \<noteq> None) xs"
  shows "filter_js (criador_igual toLower x) xs = None"
  using assms
proof (induction xs)
  case Nil
  then show ?case by simp
next
  case (Cons a xs)
  show ?case
  proof (cases "criador_texto a")
    case None
    then have "criador_igual toLower x a = None"
      by (simp add: criador_igual_texto)
    then show ?thesis by simp
  next
    case (Some s)
    with Cons.prems have "\<not> list_all (\<lambda>a. criador_texto a \<noteq> None) xs"
      by simp
    then have "filter_js (criador_igual toLower x) xs = None"
      by (rule Cons.IH)
    then show ?thesis
      by (simp split: option.splits)
  qed
qed

text \<open>
  C8, as the handler has it. For every store state, list with no filter, or with the
  empty string as filter, returns every stored activity in the order of the store. For
  every store state in which each activity has a string creator name, list with a
  non-empty filter \<open>x\<close> returns, in the order of the store, exactly the activities
  whose creator name equals \<open>x\<close> after both are lower-cased (none when none match).
  In both cases the answer is 200 and the store is unchanged.
\<close>

theorem list_atividades:
  "(query_criador req = None \<or> query_criador req = Some [] \<longrightarrow>
      get_atividades toLower d req = (Resposta 200 (Lista (atividades d)), d)) \<and>
   (query_criador req = Some x \<and> x \<noteq> [] \<and>
    list_all (\<lambda>a. criador_texto a \<noteq> None) (atividades d) \<longrightarrow>
      get_atividades toLower d req =
        (Resposta 200
           (Lista (filter (\<lambda>a. map_option toLower (criador_texto a) = Some (toLower x))
                     (atividades d))), d))"
proof (intro conjI impI)
  assume "query_criador req = None \<or> query_criador req = Some []"
  then show "get_atividades toLower d req = (Resposta 200 (Lista (atividades d)), d)"
    by (auto simp: get_atividades_def)
next
  assume h: "query_criador req = Some x \<and> x \<noteq> [] \<and>
    list_all (\<lambda>a. criador_texto a \<noteq> None) (atividades d)"
  then have "filter_js (criador_igual toLower x) (atividades d) =
      Some (filter (\<lambda>a. map_option toLower (criador_texto a) = Some (toLower x)) (atividades d))"
    by (simp add: filter_js_criador)
  with h show "get_atividades toLower d req =
        (Resposta 200
           (Lista (filter (\<lambda>a. map_option toLower (criador_texto a) = Some (toLower x))
                     (atividades d))), d)"
    by (simp add: get_atividades_def)
qed

lemma d_colisao_criadores: "list_all (\<lambda>a. criador_texto a \<noteq> None) (atividades d_colisao)"
  by (simp add: d_colisao_eq criador_texto_def corrida_def danca_def)

text \<open>
  The store holds the activities of Bia and of Caio: no filter returns both, in order;
  the filter \<^verbatim>\<open>CAIO\<close> returns Caio's; the filter \<^verbatim>\<open>Davi\<close> returns none.
\<close>

theorem list_atividades_witness:
  "get_atividades toLowerCase_ascii d_colisao pedido
     = (Resposta 200
          (Lista [corrida(''id'' \<mapsto> JNumber (Fin 2)), danca(''id'' \<mapsto> JNumber (Fin 2))]),
        d_colisao) \<and>
   list_all (\<lambda>a. criador_texto a \<noteq> None) (atividades d_colisao) \<and>
   get_atividades toLowerCase_ascii d_colisao (pedido\<lparr>query_criador := Some ''CAIO''\<rparr>)
     = (Resposta 200 (Lista [danca(''id'' \<mapsto> JNumber (Fin 2))]), d_colisao) \<and>
   get_atividades toLowerCase_ascii d_colisao (pedido\<lparr>query_criador := Some ''Davi''\<rparr>)
     = (Resposta 200 (Lista []), d_colisao)"
proof -
  have a: "atividades d_colisao
      = [corrida(''id'' \<mapsto> JNumber (Fin 2)), danca(''id'' \<mapsto> JNumber (Fin 2))]"
    by (simp add: d_colisao_eq)
  have c: "criador_texto (corrida(''id'' \<mapsto> JNumber (Fin 2))) = Some ''Bia''"
      "criador_texto (danca(''id'' \<mapsto> JNumber (Fin 2))) = Some ''Caio''"
    by (simp_all add: criador_texto_def corrida_def danca_def)
  have q: "query_criador pedido = None"
      "query_criador (pedido\<lparr>query_criador := Some ''CAIO''\<rparr>) = Some ''CAIO''"
      "query_criador (pedido\<lparr>query_criador := Some ''Davi''\<rparr>) = Some ''Davi''"
    by (simp_all add: pedido_def)
  from list_atividades [of pedido toLowerCase_ascii d_colisao]
    list_atividades [of "pedido\<lparr>query_criador := Some ''CAIO''\<rparr>" toLowerCase_ascii
      d_colisao "''CAIO''"]
    list_atividades [of "pedido\<lparr>query_criador := Some ''Davi''\<rparr>" toLowerCase_ascii
      d_colisao "''Davi''"]
    d_colisao_criadores
  show ?thesis
    unfolding q by (simp add: a c toLowerCase_ascii_def)
qed

text \<open>
  C8 as stated fails twice. In the store that holds an activity created without
  \<^verbatim>\<open>criador\<close>, list with the filter \<^verbatim>\<open>ana\<close> throws. And in the store that holds
  Ana's activity, list with the empty string as filter returns that activity, whose
  creator name does not equal the empty string.
\<close>

theorem list_atividades_counterexample:
  "get_atividades toLowerCase_ascii d_sem_criador (pedido\<lparr>query_criador := Some ''ana''\<rparr>)
     = (TypeError, d_sem_criador) \<and>
   get_atividades toLowerCase_ascii d_yoga_42 (pedido\<lparr>query_criador := Some ''''\<rparr>)
     = (Resposta 200 (Lista [yoga(''id'' \<mapsto> JNumber (Fin 1))]), d_yoga_42) \<and>
   criador_texto (yoga(''id'' \<mapsto> JNumber (Fin 1))) = Some ''Ana'' \<and>
   toLowerCase_ascii ''Ana'' \<noteq> toLowerCase_ascii ''''"
proof -
  have 1: "get_atividades toLowerCase_ascii d_sem_criador
      (pedido\<lparr>query_criador := Some ''ana''\<rparr>) = (TypeError, d_sem_criador)"
    by (simp add: get_atividades_def pedido_def d_sem_criador_def criar_def post_atividades_def
        db_vazio_def criador_igual_def Let_def map_add_def)
  have 2: "get_atividades toLowerCase_ascii d_yoga_42 (pedido\<lparr>query_criador := Some ''''\<rparr>)
     = (Resposta 200 (Lista [yoga(''id'' \<mapsto> JNumber (Fin 1))]), d_yoga_42)"
    by (simp add: get_atividades_def pedido_def d_yoga_42_atividades)
  have 3: "criador_texto (yoga(''id'' \<mapsto> JNumber (Fin 1))) = Some ''Ana''"
    by (simp add: criador_texto_def yoga_def)
  have 4: "toLowerCase_ascii ''Ana'' \<noteq> toLowerCase_ascii ''''"
    by (simp add: toLowerCase_ascii_def)
  from 1 2 3 4 show ?thesis by blast
qed

section \<open>A user id sent as a string\<close>








end
